theory Spec2Isabelle
  imports Complex_Main "HOL-Library.Word"
begin

section \<open>Values of the program\<close>

subsection \<open>Strings\<close>

text \<open>
  A JavaScript string is a sequence of UTF-16 code units. Regular expressions without
  the \<^verbatim>\<open>u\<close> flag, \<^verbatim>\<open>split\<close>, \<^verbatim>\<open>trim\<close> and \<^verbatim>\<open>===\<close> all work on code units.
\<close>

type_synonym code_unit = "16 word"
type_synonym js_string = "code_unit list"

text \<open>A literal whose characters are all below U+0100, written as an Isabelle string.\<close>

definition lit :: "string \<Rightarrow> js_string" where
  "lit s = map of_char s"

subsection \<open>Numbers\<close>

text \<open>
  A JavaScript number is a double. The finite values are modelled by exact rationals
  (no rounding); the three values that are not finite are kept apart, so that a division
  by zero shows in the result: \<^verbatim>\<open>x / 0\<close> is \<^verbatim>\<open>Infinity\<close>, \<^verbatim>\<open>-Infinity\<close> or, for
  \<^verbatim>\<open>0 / 0\<close>, \<^verbatim>\<open>NaN\<close>. The two zeros of a double are one value here.
\<close>

datatype number = Fin rat | PosInf | NegInf | NaN

text \<open>\<^verbatim>\<open>a + b\<close> on numbers.\<close>

fun js_add :: "number \<Rightarrow> number \<Rightarrow> number" where
  "js_add (Fin a) (Fin b) = Fin (a + b)"
| "js_add NaN _ = NaN"
| "js_add _ NaN = NaN"
| "js_add PosInf NegInf = NaN"
| "js_add NegInf PosInf = NaN"
| "js_add PosInf _ = PosInf"
| "js_add _ PosInf = PosInf"
| "js_add NegInf _ = NegInf"
| "js_add _ NegInf = NegInf"

text \<open>\<^verbatim>\<open>a / n\<close> where \<open>n\<close> is the \<^verbatim>\<open>length\<close> of an array, a non-negative integer.\<close>

fun js_div_length :: "number \<Rightarrow> nat \<Rightarrow> number" where
  "js_div_length (Fin a) n =
     (if n = 0 then (if a = 0 then NaN else if 0 < a then PosInf else NegInf)
      else Fin (a / of_nat n))"
| "js_div_length PosInf n = PosInf"
| "js_div_length NegInf n = NegInf"
| "js_div_length NaN n = NaN"

text \<open>\<^verbatim>\<open>isNaN(x)\<close>, \<^verbatim>\<open>a < b\<close> and \<^verbatim>\<open>a <= b\<close>: every comparison with \<^verbatim>\<open>NaN\<close> is false.\<close>

definition isNaN :: "number \<Rightarrow> bool" where
  "isNaN x = (x = NaN)"

fun js_less :: "number \<Rightarrow> number \<Rightarrow> bool" where
  "js_less NaN _ = False"
| "js_less _ NaN = False"
| "js_less (Fin a) (Fin b) = (a < b)"
| "js_less _ NegInf = False"
| "js_less PosInf _ = False"
| "js_less NegInf _ = True"
| "js_less _ PosInf = True"

fun js_less_eq :: "number \<Rightarrow> number \<Rightarrow> bool" where
  "js_less_eq NaN _ = False"
| "js_less_eq _ NaN = False"
| "js_less_eq a b = (a = b \<or> js_less a b)"

text \<open>
  \<^verbatim>\<open>n.toString()\<close> for a non-negative integer \<open>n\<close> (an array length plus one, or an
  array index plus one): its decimal digits, most significant first.
\<close>

fun toString :: "nat \<Rightarrow> js_string" where
  "toString n =
     (if n < 10 then [of_nat (48 + n)]
      else toString (n div 10) @ [of_nat (48 + n mod 10)])"

declare toString.simps [simp del]

subsection \<open>The session state\<close>

text \<open>
  \<^verbatim>\<open>interface Person { id: string; name: string }\<close> and
  \<^verbatim>\<open>interface BillItem { description; amount; includedInSplit; assignedTo }\<close>.
  The field \<^verbatim>\<open>id\<close> is called \<open>person_id\<close> and \<^verbatim>\<open>name\<close> is \<open>person_name\<close>.
\<close>

record Person =
  person_id :: js_string
  person_name :: js_string

record BillItem =
  description :: js_string
  amount :: number
  includedInSplit :: bool
  assignedTo :: "js_string list"

text \<open>
  The messages that \<^verbatim>\<open>setError\<close> is called with:
  \<^item> \<open>NoPricesFound\<close>: \<^verbatim>\<open>No prices found in the receipt. ...\<close>
  \<^item> \<open>OcrFailure\<close>: \<^verbatim>\<open>An error occurred while processing the image. ...\<close>
  \<^item> \<open>InvalidFileType\<close>: \<^verbatim>\<open>Selected file is not an image. ...\<close>
\<close>

datatype error_message = NoPricesFound | OcrFailure | InvalidFileType

text \<open>
  The component's state variables \<^verbatim>\<open>isProcessing\<close>, \<^verbatim>\<open>items\<close>, \<^verbatim>\<open>people\<close> and
  \<^verbatim>\<open>error\<close>. Every handler reads the current state and returns the next one. The
  fifth variable, \<^verbatim>\<open>imagePreview\<close>, is left out: it holds the picture shown on the
  page and no computation reads it.
\<close>

record session =
  isProcessing :: bool
  items :: "BillItem list"
  people :: "Person list"
  error :: "error_message option"

definition initial :: session where
  "initial =
     \<lparr>isProcessing = False,
      items = [],
      people = [\<lparr>person_id = lit ''1'', person_name = lit ''Person 1''\<rparr>,
                \<lparr>person_id = lit ''2'', person_name = lit ''Person 2''\<rparr>],
      error = None\<rparr>"

section \<open>People\<close>

definition addPerson :: "session \<Rightarrow> session" where
  "addPerson s =
     (let newId = toString (length (people s) + 1)
      in s\<lparr>people := people s @ [\<lparr>person_id = newId, person_name = lit ''Person '' @ newId\<rparr>]\<rparr>)"

definition removePerson :: "js_string \<Rightarrow> session \<Rightarrow> session" where
  "removePerson i s =
     (if length (people s) > 2
      then s\<lparr>people := filter (\<lambda>p. person_id p \<noteq> i) (people s),
             items := map (\<lambda>item. item\<lparr>assignedTo := filter (\<lambda>personId. personId \<noteq> i) (assignedTo item)\<rparr>)
                        (items s)\<rparr>
      else s)"

definition updatePersonName :: "js_string \<Rightarrow> js_string \<Rightarrow> session \<Rightarrow> session" where
  "updatePersonName i newName s =
     s\<lparr>people := map (\<lambda>p. if person_id p = i then p\<lparr>person_name := newName\<rparr> else p) (people s)\<rparr>"

section \<open>Split calculator\<close>


text \<open>
  \<^verbatim>\<open>items.filter(item => item.includedInSplit && item.assignedTo.includes(personId))
       .reduce((sum, item) => sum + (item.amount / item.assignedTo.length), 0)\<close>
\<close>

definition calculatePerPerson :: "js_string \<Rightarrow> session \<Rightarrow> number" where
  "calculatePerPerson personId s =
     foldl (\<lambda>sum item. js_add sum (js_div_length (amount item) (length (assignedTo item)))) (Fin 0)
       (filter (\<lambda>item. includedInSplit item \<and> personId \<in> set (assignedTo item)) (items s))"

section \<open>Assignment toggle\<close>

text \<open>
  \<^verbatim>\<open>newItems[itemIndex]\<close> is \<^verbatim>\<open>undefined\<close> when the index is not below the length, and
  reading \<^verbatim>\<open>item.assignedTo\<close> then throws a \<^verbatim>\<open>TypeError\<close>: the handler ends without
  calling \<^verbatim>\<open>setItems\<close>. The index is the position the row was rendered at, a
  non-negative integer. The assignment to \<^verbatim>\<open>item.assignedTo\<close> also changes the object
  in the array of the previous state, which is not read again.
\<close>

datatype exception = TypeError

definition toggleItemAssignment :: "nat \<Rightarrow> js_string \<Rightarrow> session \<Rightarrow> exception + session" where
  "toggleItemAssignment itemIndex personId s =
     (let newItems = items s
      in if itemIndex < length newItems
         then
           (let item = newItems ! itemIndex;
                item' =
                  (if personId \<in> set (assignedTo item)
                   then (if length (assignedTo item) > 1
                         then item\<lparr>assignedTo := filter (\<lambda>i. i \<noteq> personId) (assignedTo item)\<rparr>
                         else item)
                   else item\<lparr>assignedTo := assignedTo item @ [personId]\<rparr>)
            in Inr (s\<lparr>items := newItems[itemIndex := item']\<rparr>))
         else Inl TypeError)"

text \<open>\<^verbatim>\<open>clearAll\<close>; the image preview it also resets is not part of \<open>session\<close>.\<close>

definition clearAll :: "session \<Rightarrow> session" where
  "clearAll s = s\<lparr>items := [], error := None\<rparr>"

section \<open>Editing an item\<close>

text \<open>
  The two handlers written in place in the table of items, for the check box and for
  the description field of row \<open>index\<close>:
  \<^verbatim>\<open>const newItems = [...items]; newItems[index].includedInSplit = e.target.checked;
  setItems(newItems)\<close>, and the same with \<^verbatim>\<open>description = e.target.value\<close>.
  They have no name in the program.
\<close>

definition setIncludedInSplit :: "nat \<Rightarrow> bool \<Rightarrow> session \<Rightarrow> exception + session" where
  "setIncludedInSplit index checked s =
     (if index < length (items s)
      then Inr (s\<lparr>items := (items s)[index := (items s ! index)\<lparr>includedInSplit := checked\<rparr>]\<rparr>)
      else Inl TypeError)"

definition setDescription :: "nat \<Rightarrow> js_string \<Rightarrow> session \<Rightarrow> exception + session" where
  "setDescription index v s =
     (if index < length (items s)
      then Inr (s\<lparr>items := (items s)[index := (items s ! index)\<lparr>description := v\<rparr>]\<rparr>)
      else Inl TypeError)"

section \<open>Price extractor\<close>

subsection \<open>Library functions on strings\<close>

text \<open>
  The code units that \<^verbatim>\<open>trim\<close> strips, that \<^verbatim>\<open>\s\<close> matches and that \<^verbatim>\<open>parseFloat\<close>
  skips at the start: white space (TAB, VT, FF, SP, NBSP, U+1680, U+2000 to U+200A,
  U+202F, U+205F, U+3000, U+FEFF) and line terminators (LF, CR, U+2028, U+2029).
\<close>

definition is_space :: "code_unit \<Rightarrow> bool" where
  "is_space c =
     (c = 0x09 \<or> c = 0x0A \<or> c = 0x0B \<or> c = 0x0C \<or> c = 0x0D \<or> c = 0x20 \<or> c = 0xA0 \<or>
      c = 0x1680 \<or> (0x2000 \<le> c \<and> c \<le> 0x200A) \<or> c = 0x2028 \<or> c = 0x2029 \<or>
      c = 0x202F \<or> c = 0x205F \<or> c = 0x3000 \<or> c = 0xFEFF)"

text \<open>\<^verbatim>\<open>\d\<close>, and the decimal digits of a numeric literal: \<^verbatim>\<open>0\<close> to \<^verbatim>\<open>9\<close>.\<close>

definition is_digit :: "code_unit \<Rightarrow> bool" where
  "is_digit c = (0x30 \<le> c \<and> c \<le> 0x39)"

text \<open>\<^verbatim>\<open>text.split('\n')\<close>: the pieces between line feeds; never an empty array.\<close>

fun split_newline :: "js_string \<Rightarrow> js_string list" where
  "split_newline [] = [[]]"
| "split_newline (c # cs) =
     (if c = 0x0A then [] # split_newline cs
      else (let ls = split_newline cs in (c # hd ls) # tl ls))"

definition trim :: "js_string \<Rightarrow> js_string" where
  "trim s = rev (dropWhile is_space (rev (dropWhile is_space s)))"

subsection \<open>\<^verbatim>\<open>parseFloat\<close>\<close>

text \<open>
  \<^verbatim>\<open>parseFloat\<close> skips leading white space and reads the longest prefix that is a
  decimal literal: an optional sign, then \<^verbatim>\<open>Infinity\<close>, or digits with an optional
  fraction and an optional exponent; \<^verbatim>\<open>NaN\<close> when there is no such prefix. The value
  is the exact decimal value: the rounding to the nearest double is not modelled.
\<close>

definition digit_value :: "code_unit \<Rightarrow> nat" where
  "digit_value c = unat c - 48"

definition decimal :: "js_string \<Rightarrow> nat" where
  "decimal ds = foldl (\<lambda>acc c. 10 * acc + digit_value c) 0 ds"

text \<open>The value of an exponent part \<^verbatim>\<open>e\<close>, \<^verbatim>\<open>e+\<close> or \<^verbatim>\<open>e-\<close> with digits; 0 without one.\<close>

definition exponent_part :: "js_string \<Rightarrow> int" where
  "exponent_part r =
     (case r of
        [] \<Rightarrow> 0
      | e # t \<Rightarrow>
          if e = 0x65 \<or> e = 0x45
          then (case t of
                  [] \<Rightarrow> 0
                | sg # u \<Rightarrow>
                    if sg = 0x2B \<and> takeWhile is_digit u \<noteq> [] then int (decimal (takeWhile is_digit u))
                    else if sg = 0x2D \<and> takeWhile is_digit u \<noteq> [] then - int (decimal (takeWhile is_digit u))
                    else int (decimal (takeWhile is_digit t)))
          else 0)"

definition unsigned_literal :: "js_string \<Rightarrow> number" where
  "unsigned_literal b =
     (if take 8 b = lit ''Infinity'' then PosInf
      else
        (let ip = takeWhile is_digit b;
             r1 = dropWhile is_digit b;
             point = (case r1 of [] \<Rightarrow> False | p # t \<Rightarrow> p = 0x2E);
             fp = (if point then takeWhile is_digit (tl r1) else []);
             r2 = (if point then dropWhile is_digit (tl r1) else r1);
             m = (of_nat (decimal (ip @ fp)) :: rat) / 10 ^ length fp;
             e = exponent_part r2
         in if ip = [] \<and> fp = [] then NaN
            else if 0 \<le> e then Fin (m * 10 ^ nat e)
            else Fin (m / 10 ^ nat (- e))))"

fun js_negate :: "number \<Rightarrow> number" where
  "js_negate (Fin a) = Fin (- a)"
| "js_negate PosInf = NegInf"
| "js_negate NegInf = PosInf"
| "js_negate NaN = NaN"

definition parseFloat :: "js_string \<Rightarrow> number" where
  "parseFloat s =
     (case dropWhile is_space s of
        [] \<Rightarrow> NaN
      | c # r \<Rightarrow>
          if c = 0x2B then unsigned_literal r
          else if c = 0x2D then js_negate (unsigned_literal r)
          else unsigned_literal (c # r))"

subsection \<open>The pattern\<close>

text \<open>
  \<^verbatim>\<open>trimmedLine.match(/(?:[$]?\s*(\d+(?:\.\d{2})?))$/)\<close>. The pattern has no flag: \<^verbatim>\<open>$\<close>
  is the end of the string, and the first position of the string, from the left, at
  which the pattern matches gives the result. At one position the matcher backtracks:
  every part of the pattern lists what it can leave unread, its preferred (greedy)
  choice first, and the first combination that reaches the end of the string wins.
\<close>

text \<open>\<^verbatim>\<open>[$]?\<close>: the rest after a dollar sign, then the string itself.\<close>

definition opt_dollar :: "js_string \<Rightarrow> js_string list" where
  "opt_dollar s =
     (case s of [] \<Rightarrow> [s] | c # r \<Rightarrow> if c = 0x24 then [r, s] else [s])"

text \<open>\<^verbatim>\<open>\s*\<close>: the rests after the longest run of white space, then after shorter runs.\<close>

fun star_space :: "js_string \<Rightarrow> js_string list" where
  "star_space [] = [[]]"
| "star_space (c # r) = (if is_space c then star_space r @ [c # r] else [c # r])"

text \<open>\<^verbatim>\<open>\d+\<close>: the digits read and the rest, the longest run first; at least one digit.\<close>

fun plus_digit :: "js_string \<Rightarrow> (js_string \<times> js_string) list" where
  "plus_digit [] = []"
| "plus_digit (c # r) =
     (if is_digit c then map (\<lambda>(ds, rest). (c # ds, rest)) (plus_digit r) @ [([c], r)]
      else [])"

text \<open>\<^verbatim>\<open>(?:\.\d{2})?\<close>: a point and two digits, then nothing.\<close>

definition opt_fraction :: "js_string \<Rightarrow> (js_string \<times> js_string) list" where
  "opt_fraction s =
     (case s of
        p # a # b # r \<Rightarrow>
          if p = 0x2E \<and> is_digit a \<and> is_digit b then [([p, a, b], r), ([], s)] else [([], s)]
      | _ \<Rightarrow> [([], s)])"

text \<open>
  The pattern tried at the start of \<open>s\<close>: capture group 1 of the first combination
  after which nothing is left (\<^verbatim>\<open>$\<close>).
\<close>

definition match_here :: "js_string \<Rightarrow> js_string option" where
  "match_here s =
     (case concat (map (\<lambda>s1. concat (map (\<lambda>s2. concat (map (\<lambda>(ds, s3).
              concat (map (\<lambda>(fr, s4). if s4 = [] then [ds @ fr] else []) (opt_fraction s3)))
            (plus_digit s2))) (star_space s1))) (opt_dollar s)) of
        [] \<Rightarrow> None
      | m # _ \<Rightarrow> Some m)"

text \<open>\<^verbatim>\<open>priceMatch[1]\<close>, or \<open>None\<close> when \<^verbatim>\<open>priceMatch\<close> is \<^verbatim>\<open>null\<close>.\<close>

fun priceMatch :: "js_string \<Rightarrow> js_string option" where
  "priceMatch [] = match_here []"
| "priceMatch (c # r) =
     (case match_here (c # r) of Some m \<Rightarrow> Some m | None \<Rightarrow> priceMatch r)"

subsection \<open>\<^verbatim>\<open>processImage\<close>\<close>

text \<open>The body of \<^verbatim>\<open>for (const line of lines)\<close>: the new value of \<^verbatim>\<open>prices\<close>.\<close>

definition scanLine :: "js_string list \<Rightarrow> js_string \<Rightarrow> js_string list" where
  "scanLine prices line =
     (let trimmedLine = trim line
      in case priceMatch trimmedLine of
           None \<Rightarrow> prices
         | Some priceStr \<Rightarrow>
             (let price = parseFloat priceStr
              in if \<not> isNaN price \<and> js_less (Fin 0) price
                 then (if js_less_eq (Fin (1 / 2)) price \<and> js_less_eq price (Fin 1000)
                       then prices @ [priceStr]
                       else prices)
                 else prices))"

definition collectPrices :: "js_string \<Rightarrow> js_string list" where
  "collectPrices text = foldl scanLine [] (split_newline text)"

text \<open>
  \<^verbatim>\<open>prices.map((price, index) => ({ description: `Item ${index + 1}`, ... }))\<close>, with the
  \<^verbatim>\<open>people\<close> of the state the handler was called in.
\<close>

definition newItems :: "Person list \<Rightarrow> js_string list \<Rightarrow> BillItem list" where
  "newItems ps prices =
     map (\<lambda>(price, index).
            \<lparr>description = lit ''Item '' @ toString (index + 1),
             amount = parseFloat price,
             includedInSplit = True,
             assignedTo = map person_id ps\<rparr>)
         (zip prices [0 ..< length prices])"

text \<open>
  What \<^verbatim>\<open>processImage\<close> does with the recognised text, from \<^verbatim>\<open>text.split\<close> to the
  branch on \<^verbatim>\<open>prices.length\<close>.
\<close>

definition processText :: "js_string \<Rightarrow> session \<Rightarrow> session" where
  "processText text s =
     (let prices = collectPrices text
      in if length prices > 0 then s\<lparr>items := newItems (people s) prices\<rparr>
         else s\<lparr>error := Some NoPricesFound\<rparr>)"

text \<open>
  The recognition engine is outside the program: a run of it either throws before it
  returns text (\<open>RecognizeThrows\<close>), or returns text, after which
  \<^verbatim>\<open>worker.terminate()\<close> returns (\<open>True\<close>) or throws (\<open>False\<close>). The image
  preview, set by a callback of the file reader, is not part of \<open>session\<close>.
\<close>

datatype ocr_run = RecognizeThrows | Recognized js_string bool

definition processImage :: "ocr_run \<Rightarrow> session \<Rightarrow> session" where
  "processImage outcome s =
     (let s1 = s\<lparr>isProcessing := True, error := None\<rparr>;
          s2 = (case outcome of
                  RecognizeThrows \<Rightarrow> s1\<lparr>error := Some OcrFailure\<rparr>
                | Recognized text terminated \<Rightarrow>
                    (let s' = processText text s1
                     in if terminated then s' else s'\<lparr>error := Some OcrFailure\<rparr>))
      in s2\<lparr>isProcessing := False\<rparr>)"

text \<open>
  \<^verbatim>\<open>handleFileUpload\<close>: nothing without a file; a file whose type does not start with
  \<^verbatim>\<open>image/\<close> is refused; an image goes to \<open>processImage\<close>. A file is an image,
  given with what the engine does with it, or a file of another type.
\<close>

datatype upload = Image ocr_run | OtherFile

definition handleFileUpload :: "upload option \<Rightarrow> session \<Rightarrow> session" where
  "handleFileUpload f s =
     (case f of
        None \<Rightarrow> s
      | Some (Image outcome) \<Rightarrow> processImage outcome s
      | Some OtherFile \<Rightarrow> s\<lparr>error := Some InvalidFileType\<rparr>)"

section \<open>Sessions as sequences of user actions\<close>

text \<open>
  Each handler is called from a control of the page. A session is the initial state
  followed by any sequence of such calls. A handler that throws leaves the state as it
  was.
\<close>

datatype action =
    AddPerson
  | RemovePerson js_string
  | UpdatePersonName js_string js_string
  | ProcessImage ocr_run
  | NotAnImage
  | ToggleItemAssignment nat js_string
  | SetIncludedInSplit nat bool
  | SetDescription nat js_string
  | ClearAll

definition dispatch :: "session \<Rightarrow> action \<Rightarrow> session" where
  "dispatch s a =
     (case a of
        AddPerson \<Rightarrow> addPerson s
      | RemovePerson i \<Rightarrow> removePerson i s
      | UpdatePersonName i n \<Rightarrow> updatePersonName i n s
      | ProcessImage r \<Rightarrow> handleFileUpload (Some (Image r)) s
      | NotAnImage \<Rightarrow> handleFileUpload (Some OtherFile) s
      | ToggleItemAssignment k i \<Rightarrow>
          (case toggleItemAssignment k i s of Inl _ \<Rightarrow> s | Inr s' \<Rightarrow> s')
      | SetIncludedInSplit k b \<Rightarrow>
          (case setIncludedInSplit k b s of Inl _ \<Rightarrow> s | Inr s' \<Rightarrow> s')
      | SetDescription k v \<Rightarrow>
          (case setDescription k v s of Inl _ \<Rightarrow> s | Inr s' \<Rightarrow> s')
      | ClearAll \<Rightarrow> clearAll s)"

definition run :: "action list \<Rightarrow> session" where
  "run acts = foldl dispatch initial acts"

section \<open>Notions the properties are stated with\<close>

subsection \<open>Addition of numbers is a commutative monoid\<close>

text \<open>
  \<open>js_add\<close> is associative and commutative with neutral element \<open>Fin 0\<close>, also on
  the values that are not finite. This makes the list sums of the library available for
  the two \<^verbatim>\<open>reduce\<close> calls.
\<close>

instantiation number :: comm_monoid_add
begin

definition zero_number :: number where
  "zero_number = Fin 0"

definition plus_number :: "number \<Rightarrow> number \<Rightarrow> number" where
  "plus_number a b = js_add a b"

instance
proof
  fix a b c :: number
  show "a + b + c = a + (b + c)"
    unfolding plus_number_def by (cases a; cases b; cases c) simp_all
  show "a + b = b + a"
    unfolding plus_number_def by (cases a; cases b) simp_all
  show "0 + a = a"
    unfolding plus_number_def zero_number_def by (cases a) simp_all
qed

end

subsection \<open>Shares\<close>


text \<open>What one item adds to the sum that \<open>calculatePerPerson\<close> returns.\<close>

definition contribution :: "js_string \<Rightarrow> BillItem \<Rightarrow> number" where
  "contribution personId item =
     (if includedInSplit item \<and> personId \<in> set (assignedTo item)
      then js_div_length (amount item) (length (assignedTo item)) else 0)"

text \<open>
  \<open>calculatePerPerson\<close> with \<open>z\<close> in the place of every quotient whose denominator
  is 0. It is not code of the program: it serves to say that the program takes no such
  quotient.
\<close>

definition calculatePerPersonGuarded :: "number \<Rightarrow> js_string \<Rightarrow> session \<Rightarrow> number" where
  "calculatePerPersonGuarded z personId s =
     foldl (\<lambda>sum item. js_add sum
              (if length (assignedTo item) = 0 then z
               else js_div_length (amount item) (length (assignedTo item)))) (Fin 0)
       (filter (\<lambda>item. includedInSplit item \<and> personId \<in> set (assignedTo item)) (items s))"

subsection \<open>Candidates\<close>

text \<open>The candidate of a line: what the pattern captures in the trimmed line.\<close>

definition candidate :: "js_string \<Rightarrow> js_string option" where
  "candidate line = priceMatch (trim line)"


section \<open>Example sessions\<close>

text \<open>Three people; a shared item, an item of one person, and an item left out.\<close>

definition dinner :: session where
  "dinner =
     \<lparr>isProcessing = False,
      items =
        [\<lparr>description = lit ''Item 1'', amount = Fin 30, includedInSplit = True,
          assignedTo = [lit ''1'', lit ''2'', lit ''3'']\<rparr>,
         \<lparr>description = lit ''Item 2'', amount = Fin 10, includedInSplit = True,
          assignedTo = [lit ''2'']\<rparr>,
         \<lparr>description = lit ''Item 3'', amount = Fin 7, includedInSplit = False,
          assignedTo = []\<rparr>],
      people =
        [\<lparr>person_id = lit ''1'', person_name = lit ''Ann''\<rparr>,
         \<lparr>person_id = lit ''2'', person_name = lit ''Bob''\<rparr>,
         \<lparr>person_id = lit ''3'', person_name = lit ''Cy''\<rparr>],
      error = None\<rparr>"

text \<open>One item of 5.00, shared by the people with the ids 2 and 3.\<close>

definition tea :: "BillItem list" where
  "tea =
     [\<lparr>description = lit ''Item 1'', amount = Fin 5, includedInSplit = True,
       assignedTo = [lit ''2'', lit ''3'']\<rparr>]"

text \<open>
  The session after a third person was added, a receipt with one price was read and
  person 1 was removed (lemma \<open>two_left_reached\<close>).
\<close>

definition two_left :: session where
  "two_left =
     \<lparr>isProcessing = False,
      items = tea,
      people =
        [\<lparr>person_id = lit ''2'', person_name = lit ''Person 2''\<rparr>,
         \<lparr>person_id = lit ''3'', person_name = lit ''Person 3''\<rparr>],
      error = None\<rparr>"

text \<open>The same session after one more person was added (lemma \<open>reused_id_reached\<close>).\<close>

definition reused_id :: session where
  "reused_id =
     \<lparr>isProcessing = False,
      items = tea,
      people =
        [\<lparr>person_id = lit ''2'', person_name = lit ''Person 2''\<rparr>,
         \<lparr>person_id = lit ''3'', person_name = lit ''Person 3''\<rparr>,
         \<lparr>person_id = lit ''3'', person_name = lit ''Person 3''\<rparr>],
      error = None\<rparr>"



text \<open>
  An item that lists id 3 twice, as it is after a receipt was read with the people of
  \<open>reused_id\<close> and person 2 was toggled off (lemma \<open>twice_assigned_reached\<close>).
\<close>

definition twice_assigned :: session where
  "twice_assigned =
     \<lparr>isProcessing = False,
      items =
        [\<lparr>description = lit ''Item 1'', amount = Fin 5, includedInSplit = True,
          assignedTo = [lit ''3'', lit ''3'']\<rparr>],
      people = people reused_id,
      error = None\<rparr>"


section \<open>Evaluation\<close>

lemma toString_digit: "n < 10 \<Longrightarrow> toString n = [of_nat (48 + n)]"
  by (subst toString.simps) simp

lemmas extractor_defs =
  trim_def lit_def is_space_def is_digit_def match_here_def opt_dollar_def opt_fraction_def
  collectPrices_def scanLine_def parseFloat_def unsigned_literal_def exponent_part_def
  decimal_def digit_value_def isNaN_def Let_def

lemmas handler_defs =
  run_def dispatch_def initial_def addPerson_def removePerson_def handleFileUpload_def
  processImage_def processText_def newItems_def toggleItemAssignment_def toString_digit

lemma tea_prices: "collectPrices (lit ''Tea 5.00'') = [lit ''5.00'']"
  by (simp add: extractor_defs)


lemma two_left_reached:
  "run [AddPerson, ProcessImage (Recognized (lit ''Tea 5.00'') True), RemovePerson (lit ''1'')] =
     two_left"
  by (simp add: two_left_def tea_def handler_defs extractor_defs)

lemma reused_id_reached:
  "run [AddPerson, ProcessImage (Recognized (lit ''Tea 5.00'') True), RemovePerson (lit ''1''),
        AddPerson] = reused_id"
  by (simp add: reused_id_def tea_def handler_defs extractor_defs)

lemma twice_assigned_reached:
  "run [AddPerson, RemovePerson (lit ''1''), AddPerson,
        ProcessImage (Recognized (lit ''Tea 5.00'') True),
        ToggleItemAssignment 0 (lit ''2'')] = twice_assigned"
  by (simp add: twice_assigned_def reused_id_def handler_defs extractor_defs)

section \<open>Properties of the people list\<close>

lemma removePerson_at_most_two:
  "length (people s) \<le> 2 \<Longrightarrow> removePerson i s = s"
  by (simp add: removePerson_def)



text \<open>
  While the ids are pairwise distinct, \<open>removePerson\<close> keeps them so and removes at
  most one person, so that two people remain.
\<close>

lemma removePerson_keeps_distinct:
  "distinct (map person_id (people s)) \<Longrightarrow> distinct (map person_id (people (removePerson i s)))"
  by (simp add: removePerson_def distinct_map_filter)

lemma length_filter_distinct:
  "distinct (map f xs) \<Longrightarrow> length xs \<le> Suc (length (filter (\<lambda>x. f x \<noteq> i) xs))"
proof (induction xs)
  case Nil
  then show ?case by simp
next
  case (Cons a xs)
  show ?case
  proof (cases "f a = i")
    case True
    with Cons.prems have "i \<notin> f ` set xs"
      by simp
    then have "\<forall>x \<in> set xs. f x \<noteq> i"
      by blast
    then have "filter (\<lambda>x. f x \<noteq> i) xs = xs"
      by (simp add: filter_id_conv)
    with True show ?thesis by simp
  next
    case False
    with Cons show ?thesis by simp
  qed
qed

lemma removePerson_floor:
  assumes "distinct (map person_id (people s))" and "2 \<le> length (people s)"
  shows "2 \<le> length (people (removePerson i s))"
proof (cases "length (people s) > 2")
  case True
  with length_filter_distinct [OF assms(1), of i] show ?thesis
    by (simp add: removePerson_def)
next
  case False
  with assms(2) show ?thesis
    by (simp add: removePerson_def)
qed

text \<open>
  C2 (person ids are pairwise distinct in every state reached by \<open>addPerson\<close> and
  \<open>removePerson\<close>) does not hold of the code. The new id is the decimal of the number
  of people plus one, so after a removal it can be an id that is still in use: adding
  a third person, removing person 1 and adding a person again gives the ids 2, 3, 3.
\<close>

theorem addPerson_repeats_id:
  "map person_id (people (run [AddPerson, RemovePerson (lit ''1''), AddPerson])) =
     [lit ''2'', lit ''3'', lit ''3'']"
  by (simp add: handler_defs lit_def Let_def)

text \<open>
  C7 (\<open>removePerson\<close> does nothing when exactly two people exist, so every reachable
  state has at least two people). The guard is as claimed, see
  \<open>removePerson_at_most_two\<close>, but the floor does not follow: \<open>removePerson\<close> drops
  every person with the given id, and with the ids 2, 3, 3 of three people removing
  id 3 leaves one person.
\<close>

theorem removePerson_leaves_one:
  "map person_id
     (people (run [AddPerson, RemovePerson (lit ''1''), AddPerson, RemovePerson (lit ''3'')])) =
     [lit ''2'']"
  by (simp add: handler_defs lit_def Let_def)

text \<open>
  C8: when more than two people exist, \<open>removePerson i\<close> keeps the number and order of
  the items; in every item \<open>i\<close> is no longer an assignee, the other assignees stay, in
  their order, and description, amount and \<open>includedInSplit\<close> are unchanged.
\<close>

theorem removePerson_prunes:
  assumes "length (people s) > 2"
  shows "length (items (removePerson i s)) = length (items s) \<and>
    (\<forall>k < length (items s).
       i \<notin> set (assignedTo (items (removePerson i s) ! k)) \<and>
       assignedTo (items (removePerson i s) ! k) =
         filter (\<lambda>p. p \<noteq> i) (assignedTo (items s ! k)) \<and>
       description (items (removePerson i s) ! k) = description (items s ! k) \<and>
       amount (items (removePerson i s) ! k) = amount (items s ! k) \<and>
       includedInSplit (items (removePerson i s) ! k) = includedInSplit (items s ! k))"
  using assms by (simp add: removePerson_def)

theorem removePerson_prunes_witness:
  "length (people dinner) > 2 \<and>
   assignedTo (items (removePerson (lit ''3'') dinner) ! 0) = [lit ''1'', lit ''2''] \<and>
   amount (items (removePerson (lit ''3'') dinner) ! 0) = Fin 30"
proof -
  have h: "length (people dinner) > 2"
    by (simp add: dinner_def)
  have k: "0 < length (items dinner)"
    by (simp add: dinner_def)
  from removePerson_prunes [OF h, of "lit ''3''"] k
  have "assignedTo (items (removePerson (lit ''3'') dinner) ! 0) =
          filter (\<lambda>p. p \<noteq> lit ''3'') (assignedTo (items dinner ! 0))"
    and "amount (items (removePerson (lit ''3'') dinner) ! 0) = amount (items dinner ! 0)"
    by blast+
  then show ?thesis
    using h by (simp add: dinner_def lit_def)
qed

section \<open>Properties of the split calculator\<close>

subsection \<open>The two sums as list sums\<close>

lemma foldl_js_add: "foldl (\<lambda>sum x. js_add sum (f x)) a xs = a + sum_list (map f xs)"
  by (induction xs arbitrary: a) (simp_all add: plus_number_def [symmetric] add.assoc)


lemma sum_list_filter_number:
  "sum_list (map f (filter P xs)) = sum_list (map (\<lambda>x. if P x then f x else (0::number)) xs)"
  by (induction xs) simp_all

lemma calculatePerPerson_sum:
  "calculatePerPerson personId s = sum_list (map (contribution personId) (items s))"
  unfolding calculatePerPerson_def contribution_def
  by (simp add: foldl_js_add sum_list_filter_number zero_number_def [symmetric])



subsection \<open>One item, split among its assignees\<close>






subsection \<open>Conservation\<close>




subsection \<open>Items without assignees\<close>

lemma contribution_empty: "assignedTo item = [] \<Longrightarrow> contribution personId item = 0"
  by (simp add: contribution_def)

lemma contribution_finite:
  "amount item = Fin a \<Longrightarrow> \<exists>r. contribution personId item = Fin r"
  by (auto simp: contribution_def zero_number_def)

lemma sum_list_finite:
  "\<forall>x \<in> set xs. \<exists>r. f x = Fin r \<Longrightarrow> \<exists>r. sum_list (map f xs) = Fin r"
proof (induction xs)
  case Nil
  then show ?case by (simp add: zero_number_def)
next
  case (Cons x xs)
  then obtain a b where "f x = Fin a" "sum_list (map f xs) = Fin b"
    by auto
  then show ?case by (simp add: plus_number_def)
qed

lemma calculatePerPerson_guarded:
  "calculatePerPerson personId s = calculatePerPersonGuarded z personId s"
  unfolding calculatePerPerson_def calculatePerPersonGuarded_def
  by (rule foldl_cong) auto

text \<open>
  C9: an item whose \<open>assignedTo\<close> is empty contributes nothing to
  \<open>calculatePerPerson\<close>: the result is the same with the item and without it. The
  filter lets an item through only when the person is among its assignees, so no
  quotient with the denominator 0 is taken: the result does not depend on what such a
  quotient would be. When all amounts are finite the result is finite, neither \<open>NaN\<close>
  nor infinite.
\<close>

theorem empty_assignedTo_safe:
  assumes "assignedTo item = []"
  shows "calculatePerPerson personId (s\<lparr>items := xs @ item # ys\<rparr>) =
           calculatePerPerson personId (s\<lparr>items := xs @ ys\<rparr>) \<and>
         (\<forall>z. calculatePerPerson personId (s\<lparr>items := xs @ item # ys\<rparr>) =
              calculatePerPersonGuarded z personId (s\<lparr>items := xs @ item # ys\<rparr>)) \<and>
         ((\<forall>x \<in> set (xs @ item # ys). \<exists>a. amount x = Fin a) \<longrightarrow>
          (\<exists>r. calculatePerPerson personId (s\<lparr>items := xs @ item # ys\<rparr>) = Fin r))"
proof (intro conjI allI impI)
  show "calculatePerPerson personId (s\<lparr>items := xs @ item # ys\<rparr>) =
           calculatePerPerson personId (s\<lparr>items := xs @ ys\<rparr>)"
    using assms by (simp add: calculatePerPerson_sum contribution_empty)
next
  fix z
  show "calculatePerPerson personId (s\<lparr>items := xs @ item # ys\<rparr>) =
          calculatePerPersonGuarded z personId (s\<lparr>items := xs @ item # ys\<rparr>)"
    by (rule calculatePerPerson_guarded)
next
  assume fin: "\<forall>x \<in> set (xs @ item # ys). \<exists>a. amount x = Fin a"
  have "\<forall>x \<in> set (xs @ item # ys). \<exists>r. contribution personId x = Fin r"
    using fin contribution_finite by blast
  then have "\<exists>r. sum_list (map (contribution personId) (xs @ item # ys)) = Fin r"
    by (rule sum_list_finite)
  then show "\<exists>r. calculatePerPerson personId (s\<lparr>items := xs @ item # ys\<rparr>) = Fin r"
    by (simp add: calculatePerPerson_sum)
qed

theorem empty_assignedTo_safe_witness:
  "assignedTo ((items dinner ! 2)\<lparr>includedInSplit := True\<rparr>) = [] \<and>
   calculatePerPerson (lit ''2'')
     (dinner\<lparr>items := take 2 (items dinner) @ (items dinner ! 2)\<lparr>includedInSplit := True\<rparr> # []\<rparr>) =
   calculatePerPerson (lit ''2'') (dinner\<lparr>items := take 2 (items dinner) @ []\<rparr>) \<and>
   calculatePerPerson (lit ''2'') (dinner\<lparr>items := take 2 (items dinner) @ []\<rparr>) = Fin 20"
proof -
  have h: "assignedTo ((items dinner ! 2)\<lparr>includedInSplit := True\<rparr>) = []"
    by (simp add: dinner_def)
  have v: "calculatePerPerson (lit ''2'') (dinner\<lparr>items := take 2 (items dinner) @ []\<rparr>) = Fin 20"
    by (simp add: calculatePerPerson_def dinner_def lit_def)
  from empty_assignedTo_safe [OF h, where personId = "lit ''2''" and s = dinner
      and xs = "take 2 (items dinner)" and ys = "[]"]
  have "calculatePerPerson (lit ''2'')
     (dinner\<lparr>items := take 2 (items dinner) @ (items dinner ! 2)\<lparr>includedInSplit := True\<rparr> # []\<rparr>) =
   calculatePerPerson (lit ''2'') (dinner\<lparr>items := take 2 (items dinner) @ []\<rparr>)"
    by blast
  with h v show ?thesis by simp
qed

subsection \<open>Adding a person\<close>




section \<open>Properties of the assignment toggle\<close>





section \<open>Properties of the price extractor\<close>

subsection \<open>The loop collects the surviving candidates\<close>







subsection \<open>The items of a receipt\<close>



subsection \<open>No price\<close>

text \<open>
  C5: when no candidate survives, the handler sets the error to \<open>NoPricesFound\<close> and
  leaves the items as they were; so does the whole of \<open>processImage\<close> when the engine
  returns normally.
\<close>

theorem no_prices_found:
  assumes "collectPrices text = []"
  shows "error (processText text s) = Some NoPricesFound \<and>
     items (processText text s) = items s \<and>
     error (processImage (Recognized text True) s) = Some NoPricesFound \<and>
     items (processImage (Recognized text True) s) = items s"
  using assms by (simp add: processText_def processImage_def)

theorem no_prices_found_witness:
  "collectPrices (lit ''Thank you'') = [] \<and>
   error (processImage (Recognized (lit ''Thank you'') True) dinner) = Some NoPricesFound \<and>
   items (processImage (Recognized (lit ''Thank you'') True) dinner) = items dinner"
proof -
  have h: "collectPrices (lit ''Thank you'') = []"
    by (simp add: extractor_defs)
  from no_prices_found [OF h, of dinner] h show ?thesis
    by simp
qed

subsection \<open>More than two decimal digits\<close>

text \<open>
  C3 (a line whose last number has more than two decimal digits gives no item) does not
  hold of the code. The pattern is tied to the end of the line only: in \<^verbatim>\<open>12.505\<close> it
  does not match at \<^verbatim>\<open>12\<close>, but it matches at the digits \<^verbatim>\<open>505\<close> after the point,
  which is a number in the accepted range, so the line gives an item of 505.
\<close>

theorem three_decimals_extracted:
  "candidate (lit ''12.505'') = Some (lit ''505'') \<and>
   map amount (items (processText (lit ''12.505'') initial)) = [Fin 505]"
  by (simp add: candidate_def processText_def newItems_def initial_def extractor_defs)

end
